theory Spec2Isabelle
  imports Main
begin

section \<open>Data model of \<open>src/App.jsx\<close>\<close>

text \<open>
  A document record as the remote store returns it. The handlers of the console read
  \<open>_id\<close> (here \<open>doc_id\<close>: an Isabelle name cannot start with an underscore),
  \<open>title\<close> and \<open>starred\<close>; the other fields are only rendered. The spread
  \<open>{ ...doc, starred: b }\<close> of the source is the record update
  \<open>doc\<lparr>starred := b\<rparr>\<close>, which keeps every other field.
\<close>

record document =
  doc_id :: string
  title :: string
  summary :: string
  status :: string
  department :: string
  doc_type :: string
  date :: string
  language :: string
  tags :: "string list"
  source :: string
  starred :: bool

text \<open>
  The \<open>useState\<close> cells of the \<open>App\<close> component (lines 88-97) that the
  handlers below read or write. \<open>activeTab\<close> and \<open>notifications\<close> are
  presentation state that none of these handlers touches. \<open>error\<close> and
  \<open>viewingDocument\<close> are \<open>null\<close> or a value, hence options.
  \<open>totalDocuments\<close> is a JavaScript number, a binary64 double, that holds a whole
  number: the state keeps the integer it denotes.
\<close>

record app_state =
  searchQuery :: string
  selectedDepartment :: string
  selectedDocType :: string
  documents :: "document list"
  totalDocuments :: int
  loading :: bool
  error :: "string option"
  viewingDocument :: "document option"

text \<open>The initial values of the \<open>useState\<close> calls.\<close>

definition initial_state :: app_state where
  "initial_state =
     \<lparr>searchQuery = '''', selectedDepartment = ''all'', selectedDocType = ''all-types'',
      documents = [], totalDocuments = 0, loading = True, error = None,
      viewingDocument = None\<rparr>"

subsection \<open>Remote calls and their outcomes\<close>

text \<open>
  The four calls the component issues with \<open>fetch\<close>, by endpoint:
  \<open>GET /api/documents?params\<close> (the parameters in the order they were appended),
  \<open>POST /api/documents/upload\<close> with the file, \<open>DELETE /api/documents/id\<close> and
  \<open>PUT /api/documents/id\<close> with the body \<open>{starred: b}\<close>.
\<close>

type_synonym upload_file = string

datatype request =
    ListDocuments "(string \<times> string) list"
  | UploadDocument upload_file
  | DeleteDocument string
  | UpdateStarred string bool

text \<open>
  What awaiting \<open>fetch\<close> gives: the promise rejects with an error carrying a
  message (transport failure), or resolves to a response with a status code and a body.
  Awaiting \<open>response.json()\<close> rejects with a message when the body is not JSON
  (\<open>Inl\<close>) or gives the parsed payload (\<open>Inr\<close>). \<open>response.ok\<close> is true
  exactly for the statuses 200 to 299.
\<close>

datatype 'b fetch_result =
    Rejected string
  | Resolved nat "string + 'b"

definition response_ok :: "nat \<Rightarrow> bool" where
  "response_ok st = (200 \<le> st \<and> st \<le> 299)"

text \<open>
  The payload of the list endpoint, of the shape the endpoint answers with:
  \<open>data.documents\<close>, a list of records, and \<open>data.pagination.total\<close>, a
  number.
\<close>

record documents_payload =
  data_documents :: "document list"
  pagination_total :: int

text \<open>
  The payload of the upload endpoint: the handler reads \<open>title\<close> of a success body
  and \<open>error\<close> of a failure body; either may be missing from the object.
\<close>

record upload_payload =
  payload_title :: "string option"
  payload_error :: "string option"

text \<open>
  What a handler does to the world besides writing state: \<open>alert(msg)\<close> and
  \<open>fetch(...)\<close>, in program order. (\<open>console.error\<close> is developer logging and
  is left out.)
\<close>

datatype effect =
    Alert string
  | Fetch request

subsection \<open>The Detail View: \<open>handleViewDocument\<close> and the modal's \<open>onClose\<close>\<close>

definition handleViewDocument :: "document \<Rightarrow> app_state \<Rightarrow> app_state" where
  "handleViewDocument doc s = s\<lparr>viewingDocument := Some doc\<rparr>"

text \<open>
  \<open>onClose={() => setViewingDocument(null)}\<close> (line 1081), bound to the backdrop,
  the header's X button and the footer's Close button of \<open>DocumentViewModal\<close>.
\<close>

definition onClose :: "app_state \<Rightarrow> app_state" where
  "onClose s = s\<lparr>viewingDocument := None\<rparr>"

subsection \<open>The Fetch Coordinator: \<open>fetchDocuments\<close> (lines 102-131)\<close>

text \<open>
  \<open>fetchDocuments\<close> is a \<open>useCallback\<close> closure over its dependency array
  \<open>[searchQuery, selectedDepartment, selectedDocType]\<close>: it reads the three values
  of the render that created it, not the state at the time it runs.
\<close>

type_synonym deps = "string \<times> string \<times> string"

definition callback_deps :: "app_state \<Rightarrow> deps" where
  "callback_deps s = (searchQuery s, selectedDepartment s, selectedDocType s)"

text \<open>
  Lines 106-111: the \<open>URLSearchParams\<close>, as the list of appended pairs. The test
  \<open>if (searchQuery)\<close> is JavaScript truthiness of a string: true unless it is empty.
\<close>

definition search_params :: "deps \<Rightarrow> (string \<times> string) list" where
  "search_params d =
     (case d of (q, dept, ty) \<Rightarrow>
        (if q \<noteq> [] then [(''search'', q)] else [])
        @ (if dept \<noteq> ''all'' then [(''department'', dept)] else [])
        @ (if ty \<noteq> ''all-types'' then [(''type'', ty)] else []))"

text \<open>
  An \<open>async\<close> function runs to its first \<open>await\<close> when called and is resumed
  when the awaited promise settles; other handlers may run in between. So each async
  handler is two functions: \<open>_begin\<close>, up to the \<open>fetch\<close>, and \<open>_resume\<close>,
  from the outcome of the \<open>fetch\<close> to the end, applied to the state at that time.
  The handler run with nothing in between is their composition.

  Lines 103-115: mark loading, clear the error, issue the request.
\<close>

definition fetchDocuments_begin :: "deps \<Rightarrow> app_state \<Rightarrow> app_state \<times> effect list" where
  "fetchDocuments_begin d s =
     (s\<lparr>loading := True, error := None\<rparr>, [Fetch (ListDocuments (search_params d))])"

text \<open>
  Lines 117-130. Every exception of the \<open>try\<close> block (a rejected \<open>fetch\<close>, the
  \<open>throw\<close> on a response that is not ok, a body that is not JSON) reaches the one
  \<open>catch\<close>; \<open>finally\<close> clears the loading flag.
\<close>

definition fetchDocuments_catch :: "app_state \<Rightarrow> app_state" where
  "fetchDocuments_catch s =
     s\<lparr>error := Some ''Could not load documents. Please try again later.'',
       documents := []\<rparr>"

definition fetchDocuments_resume ::
  "documents_payload fetch_result \<Rightarrow> app_state \<Rightarrow> app_state" where
  "fetchDocuments_resume result s =
     (let s' =
        (case result of
           Rejected m \<Rightarrow> fetchDocuments_catch s
         | Resolved st body \<Rightarrow>
             if \<not> response_ok st then fetchDocuments_catch s
             else (case body of
                     Inl m \<Rightarrow> fetchDocuments_catch s
                   | Inr data \<Rightarrow>
                       s\<lparr>documents := data_documents data,
                         totalDocuments := pagination_total data\<rparr>))
      in s'\<lparr>loading := False\<rparr>)"

definition fetchDocuments ::
  "deps \<Rightarrow> documents_payload fetch_result \<Rightarrow> app_state \<Rightarrow> app_state \<times> effect list" where
  "fetchDocuments d result s =
     (case fetchDocuments_begin d s of (s1, es) \<Rightarrow> (fetchDocuments_resume result s1, es))"

subsection \<open>The Upload Pipeline: \<open>handleFileUpload\<close> (lines 160-195)\<close>

text \<open>
  What the \<open>try\<close> block of the handler comes to: \<open>Inl m\<close> when it throws an error
  with message \<open>m\<close>, \<open>Inr t\<close> when it reaches the success alert with the text
  \<open>t\<close> that the template literal makes of \<open>newDocument.title\<close>
  (\<open>undefined\<close> when the field is missing). \<open>errData.error || "File upload failed"\<close>
  takes the generic text when the field is missing or the empty string.
\<close>

definition upload_outcome :: "upload_payload fetch_result \<Rightarrow> string + string" where
  "upload_outcome result =
     (case result of
        Rejected m \<Rightarrow> Inl m
      | Resolved st body \<Rightarrow>
          if \<not> response_ok st then
            (case body of
               Inl m \<Rightarrow> Inl m
             | Inr errData \<Rightarrow>
                 Inl (case payload_error errData of
                        None \<Rightarrow> ''File upload failed''
                      | Some e \<Rightarrow> if e = [] then ''File upload failed'' else e))
          else
            (case body of
               Inl m \<Rightarrow> Inl m
             | Inr newDocument \<Rightarrow>
                 Inr (case payload_title newDocument of
                        None \<Rightarrow> ''undefined''
                      | Some t \<Rightarrow> t)))"

text \<open>
  From the outcome of the upload request to the end of the handler. \<open>d\<close> is the
  dependency array of the \<open>fetchDocuments\<close> closure the handler holds. The call
  \<open>fetchDocuments()\<close> of line 186 is not awaited: its part up to the request runs, then
  \<open>finally\<close> clears the loading flag and the file control
  (\<open>event.target.value = null\<close>), which is the second component of the result.
\<close>

definition handleFileUpload_resume ::
  "deps \<Rightarrow> upload_payload fetch_result \<Rightarrow> app_state
     \<Rightarrow> app_state \<times> upload_file list \<times> effect list" where
  "handleFileUpload_resume d result s =
     (case (case upload_outcome result of
              Inr t \<Rightarrow>
                (case fetchDocuments_begin d s of (s1, es) \<Rightarrow>
                   (s1, Alert (''Successfully uploaded and processed: '' @ t) # es))
            | Inl m \<Rightarrow>
                (s\<lparr>error := Some (''File upload failed: '' @ m)\<rparr>,
                 [Alert (''File upload failed: '' @ m)]))
      of (s', es) \<Rightarrow> (s'\<lparr>loading := False\<rparr>, [], es))"

text \<open>
  The whole handler on the file control's list of selected files
  (\<open>event.target.files\<close>), with \<open>result\<close> the outcome the upload request will have.
  \<open>files[0]\<close> of an empty list is \<open>undefined\<close> and the handler returns at once.
\<close>

definition handleFileUpload ::
  "upload_file list \<Rightarrow> upload_payload fetch_result \<Rightarrow> app_state
     \<Rightarrow> app_state \<times> upload_file list \<times> effect list" where
  "handleFileUpload files result s =
     (case files of
        [] \<Rightarrow> (s, files, [])
      | f # rest \<Rightarrow>
          (case handleFileUpload_resume (callback_deps s) result
                  (s\<lparr>loading := True, error := None\<rparr>)
           of (s', files', es) \<Rightarrow> (s', files', Fetch (UploadDocument f) # es)))"

subsection \<open>JavaScript numbers: the decrement \<open>prev - 1\<close>\<close>

text \<open>
  Subtraction on doubles gives the double nearest to the exact difference, a tie going
  to the one with the even significand. A significand has 53 bits, so the doubles
  around a whole number of magnitude \<open>a\<close> are the multiples of \<open>ulp a\<close>: 1 below
  9007199254740992 (2 to the 53), and twice as much each time the magnitude doubles.
\<close>

function ulp :: "int \<Rightarrow> int" where
  "ulp a = (if a < 9007199254740992 then 1 else 2 * ulp (a div 2))"
  by pat_completeness auto
termination
  by (relation "measure nat") auto

declare ulp.simps [simp del]

text \<open>
  The double nearest to a whole number \<open>x\<close>, ties to even. (A whole number too
  large for any finite double does not arise: the difference of a double and 1 is
  below that threshold.)
\<close>

definition round_to_double :: "int \<Rightarrow> int" where
  "round_to_double x =
     (let a = \<bar>x\<bar>;
          u = ulp a;
          q = a div u;
          r = a mod u;
          m = (if 2 * r < u then q
               else if u < 2 * r then q + 1
               else if even q then q else q + 1)
      in sgn x * (m * u))"

text \<open>\<open>prev - 1\<close> on a number holding the whole number \<open>prev\<close>.\<close>

definition js_minus_one :: "int \<Rightarrow> int" where
  "js_minus_one prev = round_to_double (prev - 1)"

subsection \<open>Delete: \<open>handleDeleteDocument\<close> (lines 216-244)\<close>

text \<open>
  After the \<open>DELETE\<close> request settles. \<open>setDocuments(documents.filter(...))\<close>
  filters the \<open>documents\<close> of the render the handler was created in (\<open>captured\<close>),
  while \<open>setTotalDocuments(prev => prev - 1)\<close> is a functional update of the
  current state. The body of the response is never read.
\<close>

definition handleDeleteDocument_resume ::
  "document list \<Rightarrow> string \<Rightarrow> unit fetch_result \<Rightarrow> app_state
     \<Rightarrow> app_state \<times> effect list" where
  "handleDeleteDocument_resume captured docId result s =
     (case result of
        Rejected m \<Rightarrow> (s, [Alert m])
      | Resolved st body \<Rightarrow>
          if \<not> response_ok st then (s, [Alert ''Failed to delete the document.''])
          else
            (s\<lparr>documents := filter (\<lambda>doc. doc_id doc \<noteq> docId) captured,
               totalDocuments := js_minus_one (totalDocuments s)\<rparr>,
             [Alert ''Document deleted successfully.'']))"

text \<open>
  The whole handler. \<open>confirmed\<close> is the user's answer to \<open>window.confirm\<close>.
\<close>

definition handleDeleteDocument ::
  "bool \<Rightarrow> string \<Rightarrow> unit fetch_result \<Rightarrow> app_state \<Rightarrow> app_state \<times> effect list" where
  "handleDeleteDocument confirmed docId result s =
     (if \<not> confirmed then (s, [])
      else
        (case handleDeleteDocument_resume (documents s) docId result s of
           (s', es) \<Rightarrow> (s', Fetch (DeleteDocument docId) # es)))"

subsection \<open>Star and unstar: \<open>handleStarDocument\<close> (lines 254-290)\<close>

definition newStarredState :: "document \<Rightarrow> bool" where
  "newStarredState docToUpdate = (\<not> starred docToUpdate)"

definition starred_alert :: "document \<Rightarrow> string" where
  "starred_alert docToUpdate =
     ''Document '' @ [CHR 0x22] @ title docToUpdate @ [CHR 0x22] @ '' has been ''
     @ (if newStarredState docToUpdate then ''starred'' else ''unstarred'') @ ''!''"

text \<open>
  After the \<open>PUT\<close> request settles: the functional update
  \<open>setDocuments(currentDocuments => currentDocuments.map(...))\<close> on the current state.
\<close>

definition handleStarDocument_resume ::
  "document \<Rightarrow> unit fetch_result \<Rightarrow> app_state \<Rightarrow> app_state \<times> effect list" where
  "handleStarDocument_resume docToUpdate result s =
     (case result of
        Rejected m \<Rightarrow> (s, [Alert m])
      | Resolved st body \<Rightarrow>
          if \<not> response_ok st then (s, [Alert ''Failed to update document.''])
          else
            (s\<lparr>documents :=
                 map (\<lambda>doc. if doc_id doc = doc_id docToUpdate
                            then doc\<lparr>starred := newStarredState docToUpdate\<rparr>
                            else doc)
                   (documents s)\<rparr>,
             [Alert (starred_alert docToUpdate)]))"

definition handleStarDocument ::
  "document \<Rightarrow> unit fetch_result \<Rightarrow> app_state \<Rightarrow> app_state \<times> effect list" where
  "handleStarDocument docToUpdate result s =
     (case handleStarDocument_resume docToUpdate result s of
        (s', es) \<Rightarrow>
          (s', Fetch (UpdateStarred (doc_id docToUpdate) (newStarredState docToUpdate)) # es))"

subsection \<open>The Debounce Controller: the effect of lines 133-139\<close>

text \<open>
  The three setters of the filter axes, as the \<open>onChange\<close> and \<open>onClick\<close>
  handlers of the inputs, the selects and the tag chips call them.
\<close>

datatype filter_write =
    SetSearchQuery string
  | SetSelectedDepartment string
  | SetSelectedDocType string

fun apply_write :: "filter_write \<Rightarrow> app_state \<Rightarrow> app_state" where
  "apply_write (SetSearchQuery v) s = s\<lparr>searchQuery := v\<rparr>"
| "apply_write (SetSelectedDepartment v) s = s\<lparr>selectedDepartment := v\<rparr>"
| "apply_write (SetSelectedDocType v) s = s\<lparr>selectedDocType := v\<rparr>"

text \<open>Whether a write gives its axis a value other than the one it holds.\<close>

fun changes :: "filter_write \<Rightarrow> app_state \<Rightarrow> bool" where
  "changes (SetSearchQuery v) s = (v \<noteq> searchQuery s)"
| "changes (SetSelectedDepartment v) s = (v \<noteq> selectedDepartment s)"
| "changes (SetSelectedDocType v) s = (v \<noteq> selectedDocType s)"

text \<open>
  The component together with what React keeps for it between renders: the dependency
  array of the memoised \<open>fetchDocuments\<close> (\<open>memo_deps\<close>), the pending timeout of
  the effect, if any, as its firing time in milliseconds and the dependency array of
  the \<open>fetchDocuments\<close> it will call, and the log of the effects so far, each with
  the time it happened.
\<close>

record runtime =
  app :: app_state
  memo_deps :: deps
  debounceTimer :: "(nat \<times> deps) option"
  issued :: "(nat \<times> effect) list"

text \<open>
  A render at time \<open>t\<close>. \<open>useCallback\<close> returns the memoised function unless one
  of its dependencies differs from the last render's; \<open>useEffect\<close> with the
  dependency \<open>[fetchDocuments]\<close> runs only when it got a new function: then the cleanup
  of the previous run, \<open>clearTimeout(debounceTimer)\<close>, drops the pending timeout and
  the effect sets a new one, 500 ms from now, calling the new \<open>fetchDocuments\<close>.
  Otherwise nothing is cancelled and nothing is scheduled.
\<close>

definition render :: "nat \<Rightarrow> runtime \<Rightarrow> runtime" where
  "render t r =
     (let d = callback_deps (app r) in
      if d = memo_deps r then r
      else r\<lparr>memo_deps := d, debounceTimer := Some (t + 500, d)\<rparr>)"

text \<open>The first render, at time 0: the effect runs and schedules the first refresh.\<close>

definition mount :: runtime where
  "mount =
     \<lparr>app = initial_state, memo_deps = callback_deps initial_state,
      debounceTimer = Some (500, callback_deps initial_state), issued = []\<rparr>"

text \<open>A write to a filter axis at time \<open>t\<close>: the setter, then the render it causes.\<close>

definition write_at :: "nat \<Rightarrow> filter_write \<Rightarrow> runtime \<Rightarrow> runtime" where
  "write_at t w r = render t (r\<lparr>app := apply_write w (app r)\<rparr>)"

text \<open>
  Time passes up to \<open>t\<close>: a pending timeout whose time has come fires and calls its
  \<open>fetchDocuments\<close>, which runs up to the request; the state it writes causes a
  render.
\<close>

definition advance :: "nat \<Rightarrow> runtime \<Rightarrow> runtime" where
  "advance t r =
     (case debounceTimer r of
        None \<Rightarrow> r
      | Some (ft, d) \<Rightarrow>
          if ft \<le> t then
            (case fetchDocuments_begin d (app r) of
               (s1, es) \<Rightarrow>
                 render ft (r\<lparr>app := s1, debounceTimer := None,
                              issued := issued r @ map (\<lambda>e. (ft, e)) es\<rparr>))
          else r)"

text \<open>A sequence of timed writes, each after the time before it has passed.\<close>

fun run :: "runtime \<Rightarrow> (nat \<times> filter_write) list \<Rightarrow> runtime" where
  "run r [] = r"
| "run r ((t, w) # ws) = run (write_at t w (advance t r)) ws"

text \<open>
  The writes one after another on the state alone: the last-written filter vector is
  \<open>callback_deps\<close> of the result.
\<close>

fun writes :: "app_state \<Rightarrow> (nat \<times> filter_write) list \<Rightarrow> app_state" where
  "writes s [] = s"
| "writes s ((t, w) # ws) = writes (apply_write w s) ws"

text \<open>
  A burst inside the quiescence window: the times do not decrease and each write comes
  less than 500 ms after the one before.
\<close>

fun within_window :: "(nat \<times> filter_write) list \<Rightarrow> bool" where
  "within_window [] = True"
| "within_window [e] = True"
| "within_window ((t, w) # (t', w') # ws) =
     (t \<le> t' \<and> t' < t + 500 \<and> within_window ((t', w') # ws))"

text \<open>Every write of the sequence changes the value of its axis at the time it is made.\<close>

fun all_change :: "app_state \<Rightarrow> (nat \<times> filter_write) list \<Rightarrow> bool" where
  "all_change s [] = True"
| "all_change s ((t, w) # ws) = (changes w s \<and> all_change (apply_write w s) ws)"

text \<open>No timeout is pending at time \<open>t\<close>, or the pending one fires later.\<close>

definition not_due :: "nat \<Rightarrow> runtime \<Rightarrow> bool" where
  "not_due t r = (case debounceTimer r of None \<Rightarrow> True | Some (ft, d) \<Rightarrow> t < ft)"

subsection \<open>Example data\<close>

text \<open>
  Two records and a store holding them, for evaluating the handlers on concrete inputs
  (the record \<open>d1\<close> and the upload titled \<open>Q3 Report\<close> of the specification's
  example scenarios).
\<close>

definition circular_12 :: document where
  "circular_12 =
     \<lparr>doc_id = ''d1'', title = ''Circular 12'', summary = ''Platform safety circular'',
      status = ''urgent'', department = ''safety'', doc_type = ''safety-circular'',
      date = ''2025-01-15'', language = ''English'', tags = [''safety''],
      source = ''Email'', starred = True\<rparr>"

definition q3_report :: document where
  "q3_report =
     \<lparr>doc_id = ''d2'', title = ''Q3 Report'', summary = ''Quarterly finance report'',
      status = ''review'', department = ''finance'', doc_type = ''policy'',
      date = ''2025-10-01'', language = ''English'', tags = [''finance'', ''q3''],
      source = ''Upload'', starred = False\<rparr>"

definition example_store :: app_state where
  "example_store =
     \<lparr>searchQuery = ''safety'', selectedDepartment = ''all'', selectedDocType = ''all-types'',
      documents = [circular_12, q3_report], totalDocuments = 2, loading = False,
      error = Some ''File upload failed: File upload failed'', viewingDocument = None\<rparr>"

text \<open>
  The same store after a refresh whose response reported a total beyond 2 to the 53
  (the number 9007199254740994 is a double).
\<close>

definition huge_total_store :: app_state where
  "huge_total_store = example_store\<lparr>totalDocuments := 9007199254740994\<rparr>"

section \<open>Properties\<close>

subsection \<open>Detail View\<close>

text \<open>
  C9. Opening the Detail View on a record and closing it again leaves the Document
  Store as it was: \<open>documents\<close> and \<open>totalDocuments\<close> are the same after the
  opening, and after the closing, which leaves no inspected record. The inspection
  target is an option, so it holds at most one record; opening only stores the record
  it is given.
\<close>

theorem detail_view_open_close_pure:
  "documents (handleViewDocument doc s) = documents s
   \<and> totalDocuments (handleViewDocument doc s) = totalDocuments s
   \<and> viewingDocument (handleViewDocument doc s) = Some doc
   \<and> documents (onClose (handleViewDocument doc s)) = documents s
   \<and> totalDocuments (onClose (handleViewDocument doc s)) = totalDocuments s
   \<and> viewingDocument (onClose (handleViewDocument doc s)) = None"
  by (simp add: handleViewDocument_def onClose_def)

subsection \<open>Fetch Coordinator\<close>

text \<open>
  C2. When a refresh gets a response that is ok with a JSON body, whatever the state
  \<open>s\<close> is when the response arrives, \<open>documents\<close> becomes the response's list as
  it is, in its order, and \<open>totalDocuments\<close> the response's total. The error is
  cleared when the refresh starts, so after a refresh that ran from \<open>s\<close> to its
  success the state is \<open>s\<close> with the two fields replaced, no error and the loading
  flag off.
\<close>

theorem refresh_success_replaces_store:
  assumes "response_ok st"
  shows "documents (fetchDocuments_resume (Resolved st (Inr data)) s) = data_documents data
     \<and> totalDocuments (fetchDocuments_resume (Resolved st (Inr data)) s) = pagination_total data
     \<and> error (fst (fetchDocuments_begin d s)) = None
     \<and> fst (fetchDocuments d (Resolved st (Inr data)) s) =
         s\<lparr>documents := data_documents data, totalDocuments := pagination_total data,
           error := None, loading := False\<rparr>"
  using assms
  by (simp add: fetchDocuments_def fetchDocuments_begin_def fetchDocuments_resume_def)

theorem refresh_success_replaces_store_witness:
  "response_ok 200
   \<and> fst (fetchDocuments (callback_deps example_store)
        (Resolved 200 (Inr \<lparr>data_documents = [q3_report, circular_12], pagination_total = 40\<rparr>))
        example_store) =
       example_store\<lparr>documents := [q3_report, circular_12], totalDocuments := 40,
         error := None, loading := False\<rparr>"
proof -
  have ok: "response_ok 200" by (simp add: response_ok_def)
  from refresh_success_replaces_store [OF ok,
      of "\<lparr>data_documents = [q3_report, circular_12], pagination_total = 40\<rparr>"
         example_store "callback_deps example_store"]
  show ?thesis using ok by simp
qed

text \<open>
  C5. When a refresh fails, by a rejected request (transport failure) or by a response
  whose status is not 2xx (and also when an ok response's body is not JSON), the error
  state is set to the message shown to the user, \<open>documents\<close> is emptied, and
  \<open>totalDocuments\<close> keeps the value it had: it is not reset.
\<close>

theorem refresh_failure_empties_items_keeps_total:
  assumes "result = Rejected m \<or> (result = Resolved st body \<and> \<not> response_ok st)
           \<or> result = Resolved st (Inl m)"
  shows "fetchDocuments_resume result s =
           s\<lparr>error := Some ''Could not load documents. Please try again later.'',
             documents := [], loading := False\<rparr>
     \<and> totalDocuments (fetchDocuments_resume result s) = totalDocuments s
     \<and> documents (fst (fetchDocuments d result s)) = []
     \<and> totalDocuments (fst (fetchDocuments d result s)) = totalDocuments s
     \<and> error (fst (fetchDocuments d result s)) =
         Some ''Could not load documents. Please try again later.''"
  using assms
  by (auto simp add: fetchDocuments_def fetchDocuments_begin_def fetchDocuments_resume_def
      fetchDocuments_catch_def)

theorem refresh_failure_empties_items_keeps_total_witness:
  "\<not> response_ok 503
   \<and> documents (fetchDocuments_resume (Resolved 503 (Inl ''Unexpected token'')) example_store) = []
   \<and> totalDocuments (fetchDocuments_resume (Resolved 503 (Inl ''Unexpected token'')) example_store) = 2
   \<and> documents (fetchDocuments_resume (Rejected ''Failed to fetch'') example_store) = []
   \<and> totalDocuments (fetchDocuments_resume (Rejected ''Failed to fetch'') example_store) = 2
   \<and> error (fetchDocuments_resume (Rejected ''Failed to fetch'') example_store) =
       Some ''Could not load documents. Please try again later.''"
proof -
  have nok: "\<not> response_ok 503" by (simp add: response_ok_def)
  let ?bad = "Resolved 503 (Inl ''Unexpected token'') :: documents_payload fetch_result"
  let ?lost = "Rejected ''Failed to fetch'' :: documents_payload fetch_result"
  have a: "?bad = Rejected [] \<or> (?bad = Resolved 503 (Inl ''Unexpected token'') \<and> \<not> response_ok 503)
           \<or> ?bad = Resolved 503 (Inl [])"
    using nok by simp
  have b: "?lost = Rejected ''Failed to fetch'' \<or> (?lost = Resolved 0 (Inl []) \<and> \<not> response_ok 0)
           \<or> ?lost = Resolved 0 (Inl ''Failed to fetch'')"
    by simp
  from refresh_failure_empties_items_keeps_total [OF a, of example_store]
       refresh_failure_empties_items_keeps_total [OF b, of example_store]
  show ?thesis using nok by (simp add: example_store_def)
qed

text \<open>
  C6. The request of a refresh carries the parameter of an axis exactly when the axis
  differs from its sentinel, and then with the axis's value: \<open>search\<close> unless the
  query is empty, \<open>department\<close> unless the unit is \<open>all\<close>, \<open>type\<close> unless the
  category is \<open>all-types\<close>. There is no other parameter and none twice, so an axis at
  its sentinel is left out: never sent as empty, as \<open>all\<close> or as \<open>all-types\<close>.
\<close>

theorem request_params_omit_sentinels:
  "map_of (search_params (q, dept, ty)) ''search'' = (if q = '''' then None else Some q)
   \<and> map_of (search_params (q, dept, ty)) ''department'' =
       (if dept = ''all'' then None else Some dept)
   \<and> map_of (search_params (q, dept, ty)) ''type'' =
       (if ty = ''all-types'' then None else Some ty)
   \<and> distinct (map fst (search_params (q, dept, ty)))
   \<and> set (map fst (search_params (q, dept, ty))) \<subseteq> {''search'', ''department'', ''type''}
   \<and> (''search'', '''') \<notin> set (search_params (q, dept, ty))
   \<and> (''department'', ''all'') \<notin> set (search_params (q, dept, ty))
   \<and> (''type'', ''all-types'') \<notin> set (search_params (q, dept, ty))
   \<and> snd (fetchDocuments_begin (q, dept, ty) s) =
       [Fetch (ListDocuments (search_params (q, dept, ty)))]"
  by (simp add: search_params_def fetchDocuments_begin_def)

theorem request_params_omit_sentinels_witness:
  "map_of (search_params (''safety'', ''all'', ''all-types'')) ''search'' = Some ''safety''
   \<and> map_of (search_params (''safety'', ''all'', ''all-types'')) ''department'' = None
   \<and> map_of (search_params (''safety'', ''all'', ''all-types'')) ''type'' = None
   \<and> snd (fetchDocuments_begin (''safety'', ''all'', ''all-types'') example_store) =
       [Fetch (ListDocuments (search_params (''safety'', ''all'', ''all-types'')))]"
  using request_params_omit_sentinels [of "''safety''" "''all''" "''all-types''" example_store]
  by simp

subsection \<open>Delete\<close>

text \<open>
  Up to 2 to the 53 in magnitude every whole number is a double, so the decrement is
  exact there.
\<close>

lemma ulp_small: "a < 9007199254740992 \<Longrightarrow> ulp a = 1"
  by (simp add: ulp.simps)

lemma round_to_double_small:
  assumes "\<bar>x\<bar> < 9007199254740992"
  shows "round_to_double x = x"
proof -
  have "ulp \<bar>x\<bar> = 1" using assms by (rule ulp_small)
  then have "round_to_double x = sgn x * \<bar>x\<bar>"
    by (simp add: round_to_double_def)
  then show ?thesis by (simp add: mult_sgn_abs)
qed

lemma js_minus_one_exact:
  assumes "- 9007199254740992 < prev" and "prev \<le> 9007199254740992"
  shows "js_minus_one prev = prev - 1"
proof (cases "prev = - 9007199254740991")
  case True
  have "js_minus_one (- 9007199254740991) = - 9007199254740991 - 1" by code_simp
  with True show ?thesis by simp
next
  case False
  with assms have "\<bar>prev - 1\<bar> < 9007199254740992" by simp
  then show ?thesis by (simp add: js_minus_one_def round_to_double_small)
qed

text \<open>
  C3, amended. A delete that the user declines changes nothing and issues no request.
  A confirmed delete issues the \<open>DELETE\<close> request first. When the response is ok,
  \<open>documents\<close> becomes the list the handler was created with, without the records of
  that identifier, so no record with the identifier is left, and \<open>totalDocuments\<close>
  becomes the double nearest to one less than its value: exactly one less whenever the
  value is above minus 2 to the 53 and at most 2 to the 53. This holds for the handler
  run from \<open>s\<close> with nothing in between, and also when other handlers ran while the
  request was pending (\<open>captured\<close> being the handler's list and \<open>s\<close> the state
  the response finds). When the response is not ok or the request is rejected, the
  state is unchanged and the error's message is shown in an alert.
\<close>

theorem delete_document_contract:
  "handleDeleteDocument False docId result s = (s, [])
   \<and> (response_ok st \<longrightarrow>
        handleDeleteDocument True docId (Resolved st b) s
          = (s\<lparr>documents := filter (\<lambda>doc. doc_id doc \<noteq> docId) (documents s),
               totalDocuments := js_minus_one (totalDocuments s)\<rparr>,
             [Fetch (DeleteDocument docId), Alert ''Document deleted successfully.''])
        \<and> handleDeleteDocument_resume captured docId (Resolved st b) s
          = (s\<lparr>documents := filter (\<lambda>doc. doc_id doc \<noteq> docId) captured,
               totalDocuments := js_minus_one (totalDocuments s)\<rparr>,
             [Alert ''Document deleted successfully.''])
        \<and> docId \<notin> doc_id ` set (documents
                  (fst (handleDeleteDocument True docId (Resolved st b) s)))
        \<and> docId \<notin> doc_id ` set (documents
                  (fst (handleDeleteDocument_resume captured docId (Resolved st b) s))))
   \<and> (response_ok st \<longrightarrow>
        - 9007199254740992 < totalDocuments s \<longrightarrow> totalDocuments s \<le> 9007199254740992 \<longrightarrow>
        totalDocuments (fst (handleDeleteDocument True docId (Resolved st b) s))
          = totalDocuments s - 1
        \<and> totalDocuments (fst (handleDeleteDocument_resume captured docId (Resolved st b) s))
          = totalDocuments s - 1)
   \<and> (\<not> response_ok st \<longrightarrow>
        handleDeleteDocument True docId (Resolved st b) s
          = (s, [Fetch (DeleteDocument docId), Alert ''Failed to delete the document.'']))
   \<and> handleDeleteDocument True docId (Rejected m) s
        = (s, [Fetch (DeleteDocument docId), Alert m])"
  by (auto simp add: handleDeleteDocument_def handleDeleteDocument_resume_def
      js_minus_one_exact)

theorem delete_document_contract_witness:
  "response_ok 204 \<and> \<not> response_ok 404
   \<and> handleDeleteDocument False ''d1'' (Resolved 204 (Inr ())) example_store = (example_store, [])
   \<and> handleDeleteDocument True ''d1'' (Resolved 204 (Inr ())) example_store
       = (example_store\<lparr>documents := [q3_report], totalDocuments := 1\<rparr>,
          [Fetch (DeleteDocument ''d1''), Alert ''Document deleted successfully.''])
   \<and> handleDeleteDocument True ''d1'' (Resolved 404 (Inr ())) example_store
       = (example_store, [Fetch (DeleteDocument ''d1''), Alert ''Failed to delete the document.''])"
proof -
  have ok: "response_ok 204" and nok: "\<not> response_ok 404"
    by (simp_all add: response_ok_def)
  have lo: "- 9007199254740992 < totalDocuments example_store"
    and hi: "totalDocuments example_store \<le> 9007199254740992"
    and tot: "totalDocuments example_store = 2"
    by (simp_all add: example_store_def)
  have docs: "filter (\<lambda>doc. doc_id doc \<noteq> ''d1'') (documents example_store) = [q3_report]"
    by (simp add: example_store_def circular_12_def q3_report_def)
  have eq: "example_store\<lparr>documents := [q3_report], totalDocuments := js_minus_one 2\<rparr>
            = example_store\<lparr>documents := [q3_report], totalDocuments := 1\<rparr>"
    using js_minus_one_exact [of 2] by simp
  from delete_document_contract
         [of "''d1''" "Resolved 204 (Inr ())" example_store 204 "Inr ()" "documents example_store"]
       delete_document_contract
         [of "''d1''" "Resolved 204 (Inr ())" example_store 404 "Inr ()" "documents example_store"]
  show ?thesis using ok nok lo hi tot docs eq by simp
qed

text \<open>
  C3 as stated fails on a total beyond 2 to the 53, where the doubles are two apart: a
  confirmed delete with an ok response takes the total 9007199254740994 to
  9007199254740992, a decrease of 2 and not of 1.
\<close>

theorem delete_huge_total_counterexample:
  "response_ok 204
   \<and> totalDocuments huge_total_store = 9007199254740994
   \<and> totalDocuments
        (fst (handleDeleteDocument True ''d1'' (Resolved 204 (Inr ())) huge_total_store))
       = 9007199254740992
   \<and> totalDocuments
        (fst (handleDeleteDocument True ''d1'' (Resolved 204 (Inr ())) huge_total_store))
       \<noteq> totalDocuments huge_total_store - 1"
proof -
  have ok: "response_ok 204" by (simp add: response_ok_def)
  have dec: "js_minus_one 9007199254740994 = 9007199254740992" by code_simp
  show ?thesis using ok dec
    by (simp add: handleDeleteDocument_def handleDeleteDocument_resume_def
        huge_total_store_def)
qed

subsection \<open>Star and unstar\<close>

text \<open>
  C4. The flag sent with the \<open>PUT\<close> request is the negation of the \<open>starred\<close> flag
  of the record the handler was called with. The state changes only when the response
  is ok: then every record with that identifier gets the new flag. When the request is
  rejected or the response is not ok, the state is the one before (no flag was flipped
  ahead of the confirmation) and the error's message is shown in an alert.
\<close>

theorem star_applied_only_after_confirmation:
  "handleStarDocument doc (Rejected m) s
     = (s, [Fetch (UpdateStarred (doc_id doc) (\<not> starred doc)), Alert m])
   \<and> (\<not> response_ok st \<longrightarrow>
        handleStarDocument doc (Resolved st b) s
          = (s, [Fetch (UpdateStarred (doc_id doc) (\<not> starred doc)),
                 Alert ''Failed to update document.'']))
   \<and> (response_ok st \<longrightarrow>
        handleStarDocument doc (Resolved st b) s
          = (s\<lparr>documents :=
                 map (\<lambda>d. if doc_id d = doc_id doc then d\<lparr>starred := \<not> starred doc\<rparr> else d)
                   (documents s)\<rparr>,
             [Fetch (UpdateStarred (doc_id doc) (\<not> starred doc)), Alert (starred_alert doc)]))"
  by (simp add: handleStarDocument_def handleStarDocument_resume_def newStarredState_def)

theorem star_applied_only_after_confirmation_witness:
  "response_ok 200 \<and> \<not> response_ok 500
   \<and> handleStarDocument q3_report (Resolved 500 (Inr ())) example_store
       = (example_store,
          [Fetch (UpdateStarred ''d2'' True), Alert ''Failed to update document.''])
   \<and> documents (fst (handleStarDocument q3_report (Resolved 200 (Inr ())) example_store))
       = [circular_12, q3_report\<lparr>starred := True\<rparr>]"
proof -
  have ok: "response_ok 200" and nok: "\<not> response_ok 500"
    by (simp_all add: response_ok_def)
  from star_applied_only_after_confirmation [of q3_report "[]" example_store 500 "Inr ()"]
       star_applied_only_after_confirmation [of q3_report "[]" example_store 200 "Inr ()"]
  show ?thesis using ok nok
    by (simp add: example_store_def q3_report_def circular_12_def)
qed

text \<open>
  C8. Toggling the star of the record at a position of the list twice, each time on the
  record as it then is and each time confirmed by an ok response, inverts the flag and
  then restores it: the record is again the original one. When no two records of the
  list share an identifier, the whole state is again the original one.
\<close>

theorem star_twice_restores_flag:
  assumes "i < length (documents s)"
    and "response_ok st1" and "response_ok st2"
    and "s1 = fst (handleStarDocument (documents s ! i) (Resolved st1 b1) s)"
    and "s2 = fst (handleStarDocument (documents s1 ! i) (Resolved st2 b2) s1)"
  shows "starred (documents s1 ! i) = (\<not> starred (documents s ! i))
     \<and> documents s2 ! i = documents s ! i
     \<and> (distinct (map doc_id (documents s)) \<longrightarrow> s2 = s)"
proof -
  let ?d = "documents s ! i"
  have d1: "documents s1 ! i = ?d\<lparr>starred := \<not> starred ?d\<rparr>"
    using assms
    by (simp add: handleStarDocument_def handleStarDocument_resume_def newStarredState_def)
  have docs2: "documents s2 =
      map (\<lambda>doc. if doc_id doc = doc_id ?d then doc\<lparr>starred := starred ?d\<rparr> else doc)
        (documents s)"
    using assms d1
    by (auto simp add: handleStarDocument_def handleStarDocument_resume_def newStarredState_def)
  have other: "s2 = s\<lparr>documents := documents s2\<rparr>"
    using assms by (simp add: handleStarDocument_def handleStarDocument_resume_def)
  have "documents s2 = documents s" if dist: "distinct (map doc_id (documents s))"
  proof (rule nth_equalityI)
    show "length (documents s2) = length (documents s)" by (simp add: docs2)
  next
    fix j assume j: "j < length (documents s2)"
    then have j': "j < length (documents s)" by (simp add: docs2)
    show "documents s2 ! j = documents s ! j"
    proof (cases "doc_id (documents s ! j) = doc_id ?d")
      case True
      with dist j' assms(1) have "j = i"
        by (metis distinct_conv_nth length_map nth_map)
      then show ?thesis using j' by (simp add: docs2)
    next
      case False
      then show ?thesis using j' by (simp add: docs2)
    qed
  qed
  with other have "distinct (map doc_id (documents s)) \<longrightarrow> s2 = s" by auto
  moreover have "documents s2 ! i = ?d" using assms(1) by (simp add: docs2)
  moreover have "starred (documents s1 ! i) = (\<not> starred ?d)" by (simp add: d1)
  ultimately show ?thesis by blast
qed

theorem star_twice_restores_flag_witness:
  "starred (documents example_store ! 0)
   \<and> \<not> starred (documents
          (fst (handleStarDocument (documents example_store ! 0) (Resolved 200 (Inr ()))
             example_store)) ! 0)
   \<and> fst (handleStarDocument
        (documents (fst (handleStarDocument (documents example_store ! 0)
                      (Resolved 200 (Inr ())) example_store)) ! 0)
        (Resolved 204 (Inr ()))
        (fst (handleStarDocument (documents example_store ! 0) (Resolved 200 (Inr ()))
           example_store)))
       = example_store"
proof -
  have len: "0 < length (documents example_store)" by (simp add: example_store_def)
  have ok1: "response_ok 200" and ok2: "response_ok 204" by (simp_all add: response_ok_def)
  have dist: "distinct (map doc_id (documents example_store))"
    by (simp add: example_store_def circular_12_def q3_report_def)
  have st: "starred (documents example_store ! 0)"
    by (simp add: example_store_def circular_12_def)
  from star_twice_restores_flag [OF len ok1 ok2 refl refl, of "Inr ()" "Inr ()"]
  show ?thesis using dist st by simp
qed

subsection \<open>Upload Pipeline\<close>

text \<open>
  C10. Called with no file selected, the upload handler does nothing: the state (the
  loading flag, the error, the store) and the file control are as before and no request
  or alert is issued, whatever the remote service would have answered.
\<close>

theorem upload_without_file_is_noop:
  "handleFileUpload [] result s = (s, [], [])"
  by (simp add: handleFileUpload_def)




subsection \<open>Debounce Controller\<close>

lemma changes_deps:
  "changes w s \<Longrightarrow> callback_deps (apply_write w s) \<noteq> callback_deps s"
  by (cases w) (auto simp add: callback_deps_def)

lemma unchanged_write: "\<not> changes w s \<Longrightarrow> apply_write w s = s"
  by (cases w) auto

lemma advance_not_due: "not_due t r \<Longrightarrow> advance t r = r"
  by (auto simp add: not_due_def advance_def split: option.splits)

lemma write_at_changes:
  assumes "memo_deps r = callback_deps (app r)" and "changes w (app r)"
  shows "write_at t w r =
           r\<lparr>app := apply_write w (app r),
             memo_deps := callback_deps (apply_write w (app r)),
             debounceTimer := Some (t + 500, callback_deps (apply_write w (app r)))\<rparr>"
  using assms changes_deps [of w "app r"] by (simp add: write_at_def render_def Let_def)

lemma write_at_unchanged:
  assumes "memo_deps r = callback_deps (app r)" and "\<not> changes w (app r)"
  shows "write_at t w r = r"
  using assms unchanged_write [of w "app r"] by (simp add: write_at_def render_def Let_def)

text \<open>
  A burst of changing writes leaves one pending timeout: that of the last write, for the
  vector after all of them. Nothing has been issued meanwhile.
\<close>

lemma run_burst:
  assumes "ws \<noteq> []" and "within_window ws" and "all_change (app r) ws"
    and "memo_deps r = callback_deps (app r)" and "not_due (fst (hd ws)) r"
  shows "run r ws =
           r\<lparr>app := writes (app r) ws,
             memo_deps := callback_deps (writes (app r) ws),
             debounceTimer := Some (fst (last ws) + 500, callback_deps (writes (app r) ws))\<rparr>"
  using assms
proof (induction ws arbitrary: r rule: within_window.induct)
  case 1
  then show ?case by simp
next
  case (2 e)
  obtain t w where e: "e = (t, w)" by (cases e)
  with 2 show ?case
    by (simp add: advance_not_due write_at_changes)
next
  case (3 t w t' w' ws)
  let ?r1 = "write_at t w (advance t r)"
  have r1: "?r1 = r\<lparr>app := apply_write w (app r),
             memo_deps := callback_deps (apply_write w (app r)),
             debounceTimer := Some (t + 500, callback_deps (apply_write w (app r)))\<rparr>"
    using 3 by (simp add: advance_not_due write_at_changes)
  have "run ?r1 ((t', w') # ws) =
     ?r1\<lparr>app := writes (app ?r1) ((t', w') # ws),
        memo_deps := callback_deps (writes (app ?r1) ((t', w') # ws)),
        debounceTimer := Some (fst (last ((t', w') # ws)) + 500,
          callback_deps (writes (app ?r1) ((t', w') # ws)))\<rparr>"
  proof (rule "3.IH")
    show "(t', w') # ws \<noteq> []" by simp
    show "within_window ((t', w') # ws)" using "3.prems" by simp
    show "all_change (app ?r1) ((t', w') # ws)" using "3.prems" by (simp add: r1)
    show "memo_deps ?r1 = callback_deps (app ?r1)" by (simp add: r1)
    show "not_due (fst (hd ((t', w') # ws))) ?r1" using "3.prems" by (simp add: r1 not_due_def)
  qed
  then show ?case by (simp add: r1)
qed

lemma advance_fires:
  assumes "debounceTimer r = Some (ft, d)" and "ft \<le> T" and "memo_deps r = callback_deps (app r)"
  shows "issued (advance T r) = issued r @ [(ft, Fetch (ListDocuments (search_params d)))]
       \<and> debounceTimer (advance T r) = None"
  using assms
  by (simp add: advance_def fetchDocuments_begin_def render_def callback_deps_def Let_def)

text \<open>
  C1, amended. Take a burst of writes to the filter axes in which each write comes less
  than 500 ms after the one before and each gives its axis a value other than the one
  the axis holds, starting in a state whose pending refresh, if any, has not fired by
  the first write. Then no refresh is issued during the burst, each write replaces the
  pending timeout, and once 500 ms have passed since the last write exactly one refresh
  has been issued: at 500 ms after the last write, with the parameters of the filter
  vector after all the writes; no timeout is pending after it. A write of the value its
  axis already holds changes nothing: it cancels no timeout and schedules none.
\<close>

theorem debounce_changing_writes:
  assumes "ws \<noteq> []" and "within_window ws" and "all_change (app r) ws"
    and "memo_deps r = callback_deps (app r)" and "not_due (fst (hd ws)) r"
    and "fst (last ws) + 500 \<le> T"
  shows "issued (advance T (run r ws)) =
           issued r @ [(fst (last ws) + 500,
                        Fetch (ListDocuments (search_params (callback_deps (writes (app r) ws)))))]
     \<and> debounceTimer (advance T (run r ws)) = None
     \<and> debounceTimer (run r ws) =
         Some (fst (last ws) + 500, callback_deps (writes (app r) ws))
     \<and> issued (run r ws) = issued r
     \<and> (\<forall>t w. \<not> changes w (app r) \<longrightarrow> write_at t w r = r)"
proof -
  let ?r' = "run r ws"
  have run: "?r' = r\<lparr>app := writes (app r) ws,
             memo_deps := callback_deps (writes (app r) ws),
             debounceTimer := Some (fst (last ws) + 500, callback_deps (writes (app r) ws))\<rparr>"
    using assms(1-5) by (rule run_burst)
  have timer: "debounceTimer ?r' = Some (fst (last ws) + 500, callback_deps (writes (app r) ws))"
    by (simp add: run)
  have inv: "memo_deps ?r' = callback_deps (app ?r')" by (simp add: run)
  have "issued ?r' = issued r" by (simp add: run)
  with advance_fires [OF timer assms(6) inv] timer write_at_unchanged [OF assms(4)]
  show ?thesis by simp
qed

theorem debounce_changing_writes_witness:
  "issued (advance 1200 (run mount
      [(100, SetSearchQuery ''s''), (300, SetSearchQuery ''sa''),
       (700, SetSelectedDepartment ''safety'')])) =
     [(1200, Fetch (ListDocuments [(''search'', ''sa''), (''department'', ''safety'')]))]"
proof -
  let ?ws = "[(100::nat, SetSearchQuery ''s''), (300, SetSearchQuery ''sa''),
       (700, SetSelectedDepartment ''safety'')]"
  have 1: "?ws \<noteq> []" by simp
  have 2: "within_window ?ws" by simp
  have 3: "all_change (app mount) ?ws" by (simp add: mount_def initial_state_def)
  have 4: "memo_deps mount = callback_deps (app mount)" by (simp add: mount_def)
  have 5: "not_due (fst (hd ?ws)) mount" by (simp add: mount_def not_due_def)
  have 6: "fst (last ?ws) + 500 \<le> (1200::nat)" by simp
  from debounce_changing_writes [OF 1 2 3 4 5 6]
  show ?thesis by (simp add: mount_def initial_state_def callback_deps_def search_params_def)
qed

text \<open>
  C1 as stated fails on a write that repeats the value of its axis, such as a second
  click on the same tag chip (\<open>onClick={() => setSearchQuery(tag)}\<close>). After the
  mount, whose first refresh fires at 500 ms, the query is set to \<open>safety\<close> at
  1000 ms and again at 1300 ms: the second write is inside the window of the first,
  yet the refresh fires at 1500 ms, 500 ms after the first write, and not at 1800 ms,
  500 ms after the last one; the second write neither cancelled nor rescheduled it.
\<close>

theorem debounce_repeated_value_counterexample:
  "within_window [(1000, SetSearchQuery ''safety''), (1300, SetSearchQuery ''safety'')]
   \<and> issued (advance 2000 (run mount
        [(1000, SetSearchQuery ''safety''), (1300, SetSearchQuery ''safety'')])) =
       [(500, Fetch (ListDocuments [])),
        (1500, Fetch (ListDocuments [(''search'', ''safety'')]))]
   \<and> issued (advance 2000 (run mount
        [(1000, SetSearchQuery ''safety''), (1300, SetSearchQuery ''safety'')])) \<noteq>
       [(500, Fetch (ListDocuments [])),
        (1300 + 500, Fetch (ListDocuments [(''search'', ''safety'')]))]
   \<and> debounceTimer (write_at 1300 (SetSearchQuery ''safety'')
        (run mount [(1000, SetSearchQuery ''safety'')])) \<noteq>
       Some (1300 + 500, (''safety'', ''all'', ''all-types''))"
  by (simp add: mount_def initial_state_def callback_deps_def search_params_def
      advance_def write_at_def render_def fetchDocuments_begin_def Let_def)

end
